theory Spec2Isabelle
  imports Main
begin

section \<open>Values of the mock spoke pool client\<close>

text \<open>
  The development embeds \<^verbatim>\<open>MockSpokePoolClient\<close>: the class that synthesises spoke
  pool events (\<^verbatim>\<open>depositV3\<close>, \<^verbatim>\<open>fillV3Relay\<close>, \<^verbatim>\<open>executeV3SlowRelayLeaf\<close>), its
  overrides (\<^verbatim>\<open>setDepositIds\<close>) and its \<^verbatim>\<open>_update\<close>.

  JavaScript numbers that hold chain ids, deposit ids, block numbers and times are
  integers here (\<open>int\<close>), as are ethers \<^verbatim>\<open>BigNumber\<close> amounts, which are
  arbitrary-precision integers. A field that the caller may leave \<^verbatim>\<open>undefined\<close> is an
  \<open>option\<close>, and \<^verbatim>\<open>a ?? b\<close> is \<open>nullish a b\<close>.
\<close>

type_synonym address = string

definition ZERO_ADDRESS :: address where
  "ZERO_ADDRESS = ''0x0000000000000000000000000000000000000000''"

definition nullish :: "'a option \<Rightarrow> 'a \<Rightarrow> 'a" where
  "nullish x d = (case x of Some v \<Rightarrow> v | None \<Rightarrow> d)"

text \<open>The two ways the class fails: \<^verbatim>\<open>assert(cond, message)\<close> and \<^verbatim>\<open>throw new Error(message)\<close>.\<close>

datatype error = AssertionError string | Error string

text \<open>Modelled from the spec: the closed variant of fill types (the enum is declared outside the class).\<close>

datatype FillType = FastFill | SlowFill

subsection \<open>Numbers in template strings\<close>

definition digit_char :: "nat \<Rightarrow> char" where
  "digit_char d = char_of (48 + d)"

fun string_of_nat :: "nat \<Rightarrow> string" where
  "string_of_nat n =
     (if n < 10 then [digit_char n] else string_of_nat (n div 10) @ [digit_char (n mod 10)])"

definition toString :: "int \<Rightarrow> string" where
  "toString i = (if i < 0 then CHR ''-'' # string_of_nat (nat (- i)) else string_of_nat (nat i))"

text \<open>A template string prints an absent number as \<^verbatim>\<open>undefined\<close>.\<close>

definition template_num :: "int option \<Rightarrow> string" where
  "template_num x = (case x of None \<Rightarrow> ''undefined'' | Some i \<Rightarrow> toString i)"

section \<open>Events and the event manager\<close>

text \<open>The metadata \<^verbatim>\<open>event.getBlock()\<close> resolves to, reduced to number and timestamp.\<close>

record Block =
  number :: int
  timestamp :: int

record V3FundsDepositedArgs =
  a_depositId :: int
  a_originChainId :: int
  a_destinationChainId :: int
  a_depositor :: address
  a_recipient :: address
  a_inputToken :: address
  a_inputAmount :: int
  a_outputToken :: address
  a_outputAmount :: int
  a_quoteTimestamp :: int
  a_fillDeadline :: int
  a_exclusiveRelayer :: address
  a_exclusivityDeadline :: int
  a_message :: string

record RelayExecutionInfo =
  updatedRecipient :: address
  updatedMessage :: string
  updatedOutputAmount :: int
  fillType :: FillType

text \<open>
  The payload of a \<^verbatim>\<open>FilledV3Relay\<close> event. Its two amounts are copied from the
  caller's record as they are, so they stay optional.
\<close>

record FilledV3RelayArgs =
  fa_inputToken :: address
  fa_outputToken :: address
  fa_inputAmount :: "int option"
  fa_outputAmount :: "int option"
  fa_repaymentChainId :: int
  fa_originChainId :: int
  fa_depositId :: int
  fa_fillDeadline :: int
  fa_exclusivityDeadline :: int
  fa_exclusiveRelayer :: address
  fa_relayer :: address
  fa_depositor :: address
  fa_recipient :: address
  fa_message :: string
  fa_relayExecutionInfo :: RelayExecutionInfo

text \<open>
  The argument payload of an event. \<open>OtherArgs\<close> stands for the payload of any
  other event kind, reduced to its \<^verbatim>\<open>depositId\<close> entry when it has one: the
  only entry \<^verbatim>\<open>_update\<close> reads.
\<close>

datatype EventArgs =
    V3FundsDeposited V3FundsDepositedArgs
  | FilledV3Relay FilledV3RelayArgs
  | OtherArgs "int option"

fun args_depositId :: "EventArgs \<Rightarrow> int option" where
  "args_depositId (V3FundsDeposited a) = Some (a_depositId a)"
| "args_depositId (FilledV3Relay a) = Some (fa_depositId a)"
| "args_depositId (OtherArgs d) = d"

record Event =
  event :: string
  address :: address
  topics :: "string list"
  args :: "EventArgs option"
  blockNumber :: int
  transactionIndex :: int
  getBlock :: Block

record EventGeneratorInputs =
  i_event :: string
  i_address :: address
  i_topics :: "string list"
  i_args :: EventArgs
  i_blockNumber :: "int option"
  i_transactionIndex :: "int option"

record EventManager =
  em_blockNumber :: int
  em_events :: "Event list"

text \<open>
  What a call reads from outside the client: the clock, the random draws (one field for
  each place of the source that draws), and the \<^verbatim>\<open>BigNumber\<close> that
  \<^verbatim>\<open>toBN("0.95")\<close> returns.
\<close>

record Ambient =
  getCurrentTime :: int
  toBN_095 :: int
  random_chainId :: int
  random_depositId :: int
  random_amount :: int
  random_depositor :: address
  random_inputToken :: address
  random_relayer :: address
  random_recipient :: address
  random_blockNumber :: int
  random_transactionIndex :: int
  block_timestamp :: int

text \<open>
  Modelled from the spec: \<^verbatim>\<open>EventManager.generateEvent\<close> is not among the sources. The
  spec's Event Store appends the new event, assigns the block and transaction position
  when the caller left them unset, moves its block counter to the event's block and
  returns the stored event.
\<close>

definition generateEvent :: "Ambient \<Rightarrow> EventGeneratorInputs \<Rightarrow> EventManager \<Rightarrow> Event \<times> EventManager" where
  "generateEvent amb inputs em =
     (let bn = nullish (i_blockNumber inputs) (random_blockNumber amb);
          ti = nullish (i_transactionIndex inputs) (random_transactionIndex amb);
          generatedEvent = \<lparr> event = i_event inputs, address = i_address inputs,
            topics = i_topics inputs, args = Some (i_args inputs),
            blockNumber = bn, transactionIndex = ti,
            getBlock = \<lparr> number = bn, timestamp = block_timestamp amb \<rparr> \<rparr>
      in (generatedEvent, em\<lparr> em_blockNumber := bn, em_events := em_events em @ [generatedEvent] \<rparr>))"

text \<open>
  Modelled from the spec: \<^verbatim>\<open>EventManager.getEvents().flat()\<close>, the stored events in one
  global insertion order; reading them leaves the store as it is.
\<close>

definition getEvents :: "EventManager \<Rightarrow> Event list" where
  "getEvents em = em_events em"

section \<open>The client\<close>

text \<open>
  The fields of the class, and those of its parent that the class reads
  (\<^verbatim>\<open>chainId\<close>, \<^verbatim>\<open>spokePool.address\<close>, \<^verbatim>\<open>latestBlockSearched\<close>,
  \<^verbatim>\<open>latestDepositIdQueried\<close>, \<^verbatim>\<open>eventSearchConfig.toBlock\<close>). The array
  \<^verbatim>\<open>depositIdAtBlock\<close> is a JavaScript array, which may have holes (\<open>None\<close>).
\<close>

record MockSpokePoolClient =
  chainId :: int
  spokePool_address :: address
  latestBlockSearched :: int
  latestDepositIdQueried :: int
  eventSearchConfig_toBlock :: "int option"
  eventManager :: EventManager
  realizedLpFeePct :: int
  realizedLpFeePctOverride :: bool
  destinationTokenForChainOverride :: "int \<rightharpoonup> address"
  depositIdAtBlock :: "int option list"
  numberOfDeposits :: int
  blocks :: "int \<rightharpoonup> Block"

text \<open>
  The constructor and the field initialisers. The manager is the one
  \<^verbatim>\<open>getEventManager\<close> hands out; the last two parameters are what the parent's
  constructor leaves in its own fields.
\<close>

definition constructor :: "address \<Rightarrow> int \<Rightarrow> int \<Rightarrow> EventManager \<Rightarrow> int \<Rightarrow> int option \<Rightarrow> MockSpokePoolClient" where
  "constructor spokePool chain deploymentBlock em super_latestDepositId super_toBlock =
     \<lparr> chainId = chain, spokePool_address = spokePool,
       latestBlockSearched = deploymentBlock,
       latestDepositIdQueried = super_latestDepositId,
       eventSearchConfig_toBlock = super_toBlock,
       eventManager = em,
       realizedLpFeePct = 0, realizedLpFeePctOverride = False,
       destinationTokenForChainOverride = Map.empty,
       depositIdAtBlock = [], numberOfDeposits = 0, blocks = Map.empty \<rparr>"

subsection \<open>Overrides\<close>

definition setDefaultRealizedLpFeePct :: "int \<Rightarrow> MockSpokePoolClient \<Rightarrow> MockSpokePoolClient" where
  "setDefaultRealizedLpFeePct fee this = this\<lparr> realizedLpFeePct := fee, realizedLpFeePctOverride := True \<rparr>"

definition clearDefaultRealizedLpFeePct :: "MockSpokePoolClient \<Rightarrow> MockSpokePoolClient" where
  "clearDefaultRealizedLpFeePct this = this\<lparr> realizedLpFeePctOverride := False \<rparr>"

definition setDestinationTokenForChain :: "int \<Rightarrow> address \<Rightarrow> MockSpokePoolClient \<Rightarrow> MockSpokePoolClient" where
  "setDestinationTokenForChain chain token this =
     this\<lparr> destinationTokenForChainOverride := (destinationTokenForChainOverride this)(chain \<mapsto> token) \<rparr>"

definition setLatestBlockNumber :: "int \<Rightarrow> MockSpokePoolClient \<Rightarrow> MockSpokePoolClient" where
  "setLatestBlockNumber bn this = this\<lparr> latestBlockSearched := bn \<rparr>"





section \<open>Event synthesis\<close>

subsection \<open>Deposits\<close>

text \<open>The caller's record for \<^verbatim>\<open>depositV3\<close>; every field may be left unset.\<close>

record DepositWithBlock =
  d_blockNumber :: "int option"
  d_transactionIndex :: "int option"
  d_depositId :: "int option"
  d_originChainId :: "int option"
  d_destinationChainId :: "int option"
  d_depositor :: "address option"
  d_recipient :: "address option"
  d_inputToken :: "address option"
  d_inputAmount :: "int option"
  d_outputToken :: "address option"
  d_outputAmount :: "int option"
  d_quoteTimestamp :: "int option"
  d_fillDeadline :: "int option"
  d_exclusiveRelayer :: "address option"
  d_exclusivityDeadline :: "int option"
  d_message :: "string option"

text \<open>
  \<^verbatim>\<open>depositV3\<close>. The assertion comes before the counter is written and before the
  event is generated; the result pairs the outcome with the client as the call left it.
\<close>

definition depositV3 :: "Ambient \<Rightarrow> DepositWithBlock \<Rightarrow> MockSpokePoolClient \<Rightarrow> (error + Event) \<times> MockSpokePoolClient" where
  "depositV3 amb deposit this =
     (let depositId = nullish (d_depositId deposit) (numberOfDeposits this) in
      if \<not> (depositId \<ge> numberOfDeposits this)
      then (Inl (AssertionError (toString depositId @ '' < '' @ toString (numberOfDeposits this))), this)
      else
        let this1 = this\<lparr> numberOfDeposits := depositId + 1 \<rparr>;
            destinationChainId = nullish (d_destinationChainId deposit) (random_chainId amb);
            depositor = nullish (d_depositor deposit) (random_depositor amb);
            inputToken = nullish (d_inputToken deposit) (random_inputToken amb);
            outputToken = nullish (d_outputToken deposit) inputToken;
            inputAmount = nullish (d_inputAmount deposit) (random_amount amb);
            outputAmount = nullish (d_outputAmount deposit) (inputAmount * toBN_095 amb);
            message = nullish (d_message deposit)
              (''V3FundsDeposited event at block '' @ template_num (d_blockNumber deposit)
                @ '', index '' @ template_num (d_transactionIndex deposit) @ ''.'');
            topics = [toString destinationChainId, toString depositId, depositor];
            quoteTimestamp = nullish (d_quoteTimestamp deposit) (getCurrentTime amb);
            args = \<lparr> a_depositId = depositId,
              a_originChainId = nullish (d_originChainId deposit) (chainId this1),
              a_destinationChainId = destinationChainId,
              a_depositor = depositor,
              a_recipient = nullish (d_recipient deposit) depositor,
              a_inputToken = inputToken,
              a_inputAmount = inputAmount,
              a_outputToken = outputToken,
              a_outputAmount = outputAmount,
              a_quoteTimestamp = quoteTimestamp,
              a_fillDeadline = nullish (d_fillDeadline deposit) (quoteTimestamp + 3600),
              a_exclusiveRelayer = nullish (d_exclusiveRelayer deposit) ZERO_ADDRESS,
              a_exclusivityDeadline = nullish (d_exclusivityDeadline deposit) (quoteTimestamp + 600),
              a_message = message \<rparr>;
            (ev, em) = generateEvent amb
              \<lparr> i_event = ''V3FundsDeposited'', i_address = spokePool_address this1,
                i_topics = topics, i_args = V3FundsDeposited args,
                i_blockNumber = d_blockNumber deposit,
                i_transactionIndex = d_transactionIndex deposit \<rparr>
              (eventManager this1)
        in (Inr ev, this1\<lparr> eventManager := em \<rparr>))"

text \<open>
  A sequence of \<^verbatim>\<open>depositV3\<close> calls on one client, each with its own draws; a call
  that throws does not stop the caller from making the next one.
\<close>

fun depositV3_calls :: "(Ambient \<times> DepositWithBlock) list \<Rightarrow> MockSpokePoolClient \<Rightarrow> (error + Event) list \<times> MockSpokePoolClient" where
  "depositV3_calls [] this = ([], this)"
| "depositV3_calls ((amb, deposit) # rest) this =
     (let (r, this1) = depositV3 amb deposit this;
          (rs, this2) = depositV3_calls rest this1
      in (r # rs, this2))"

text \<open>The deposit id in the payload of a call's returned event, if the call returned one.\<close>

definition assigned_depositId :: "error + Event \<Rightarrow> int option" where
  "assigned_depositId r =
     (case r of Inl e \<Rightarrow> None
      | Inr ev \<Rightarrow> (case args ev of None \<Rightarrow> None | Some a \<Rightarrow> args_depositId a))"

definition deposit_args :: "error + Event \<Rightarrow> V3FundsDepositedArgs option" where
  "deposit_args r =
     (case r of Inr ev \<Rightarrow> (case args ev of Some (V3FundsDeposited a) \<Rightarrow> Some a | _ \<Rightarrow> None)
      | Inl e \<Rightarrow> None)"

subsection \<open>Fills\<close>

record RelayExecutionInfoInput =
  r_updatedRecipient :: "address option"
  r_updatedMessage :: "string option"
  r_updatedOutputAmount :: "int option"
  r_fillType :: "FillType option"

text \<open>The caller's record for \<^verbatim>\<open>fillV3Relay\<close>; every field may be left unset.\<close>

record FillWithBlock =
  f_blockNumber :: "int option"
  f_transactionIndex :: "int option"
  f_originChainId :: "int option"
  f_destinationChainId :: "int option"
  f_depositId :: "int option"
  f_inputToken :: "address option"
  f_inputAmount :: "int option"
  f_outputToken :: "address option"
  f_outputAmount :: "int option"
  f_fillDeadline :: "int option"
  f_exclusivityDeadline :: "int option"
  f_exclusiveRelayer :: "address option"
  f_relayer :: "address option"
  f_depositor :: "address option"
  f_recipient :: "address option"
  f_message :: "string option"
  f_repaymentChainId :: "int option"
  f_relayExecutionInfo :: "RelayExecutionInfoInput option"

text \<open>\<^verbatim>\<open>fill.relayExecutionInfo?.field\<close>.\<close>

definition optional_chain :: "'r option \<Rightarrow> ('r \<Rightarrow> 'a option) \<Rightarrow> 'a option" where
  "optional_chain x f = (case x of None \<Rightarrow> None | Some r \<Rightarrow> f r)"

text \<open>
  \<^verbatim>\<open>fillV3Relay\<close>. The payload takes \<^verbatim>\<open>inputAmount\<close> and \<^verbatim>\<open>outputAmount\<close> from the
  caller's record (\<^verbatim>\<open>fill.inputAmount\<close>, \<^verbatim>\<open>fill.outputAmount\<close>), not from the
  defaulted locals; the defaulted output amount reaches \<^verbatim>\<open>updatedOutputAmount\<close> only.
\<close>

definition fillV3Relay :: "Ambient \<Rightarrow> FillWithBlock \<Rightarrow> MockSpokePoolClient \<Rightarrow> Event \<times> MockSpokePoolClient" where
  "fillV3Relay amb fill this =
     (let originChainId = nullish (f_originChainId fill) (random_chainId amb);
          depositId = nullish (f_depositId fill) (random_depositId amb);
          inputToken = nullish (f_inputToken fill) (random_inputToken amb);
          inputAmount = nullish (f_inputAmount fill) (random_amount amb);
          outputAmount = nullish (f_outputAmount fill) inputAmount;
          fillDeadline = nullish (f_fillDeadline fill) (getCurrentTime amb + 60);
          relayer = nullish (f_relayer fill) (random_relayer amb);
          topics = [toString originChainId, toString depositId, relayer];
          recipient = nullish (f_recipient fill) (random_recipient amb);
          message = nullish (f_message fill)
            (''FilledV3Relay event at block '' @ template_num (f_blockNumber fill)
              @ '', index '' @ template_num (f_transactionIndex fill) @ ''.'');
          args = \<lparr> fa_inputToken = inputToken,
            fa_outputToken = nullish (f_outputToken fill) ZERO_ADDRESS,
            fa_inputAmount = f_inputAmount fill,
            fa_outputAmount = f_outputAmount fill,
            fa_repaymentChainId = nullish (f_repaymentChainId fill) (chainId this),
            fa_originChainId = originChainId,
            fa_depositId = depositId,
            fa_fillDeadline = fillDeadline,
            fa_exclusivityDeadline = nullish (f_exclusivityDeadline fill) fillDeadline,
            fa_exclusiveRelayer = nullish (f_exclusiveRelayer fill) ZERO_ADDRESS,
            fa_relayer = relayer,
            fa_depositor = nullish (f_depositor fill) (random_depositor amb),
            fa_recipient = recipient,
            fa_message = message,
            fa_relayExecutionInfo = \<lparr>
              updatedRecipient = nullish (optional_chain (f_relayExecutionInfo fill) r_updatedRecipient) recipient,
              updatedMessage = nullish (optional_chain (f_relayExecutionInfo fill) r_updatedMessage) message,
              updatedOutputAmount = nullish (optional_chain (f_relayExecutionInfo fill) r_updatedOutputAmount) outputAmount,
              fillType = nullish (optional_chain (f_relayExecutionInfo fill) r_fillType) FastFill \<rparr> \<rparr>;
          (ev, em) = generateEvent amb
            \<lparr> i_event = ''FilledV3Relay'', i_address = spokePool_address this,
              i_topics = topics, i_args = FilledV3Relay args,
              i_blockNumber = f_blockNumber fill,
              i_transactionIndex = f_transactionIndex fill \<rparr>
            (eventManager this)
      in (ev, this\<lparr> eventManager := em \<rparr>))"

definition fill_args :: "Event \<Rightarrow> FilledV3RelayArgs option" where
  "fill_args ev = (case args ev of Some (FilledV3Relay a) \<Rightarrow> Some a | _ \<Rightarrow> None)"

text \<open>
  A slow fill leaf: the relay data (any fields of a fill record; the spread copies what is
  there) and the updated output amount. The root bundle id and the proof are discarded by
  the source and left out here.
\<close>

record SlowFillLeaf =
  relayData :: FillWithBlock
  leaf_updatedOutputAmount :: "int option"

definition executeV3SlowRelayLeaf :: "Ambient \<Rightarrow> SlowFillLeaf \<Rightarrow> MockSpokePoolClient \<Rightarrow> Event \<times> MockSpokePoolClient" where
  "executeV3SlowRelayLeaf amb leaf this =
     (let fill = (relayData leaf)\<lparr>
            f_destinationChainId := Some (chainId this),
            f_relayer := Some ZERO_ADDRESS,
            f_repaymentChainId := Some 0,
            f_relayExecutionInfo := Some \<lparr>
              r_updatedRecipient = f_recipient (relayData leaf),
              r_updatedMessage = f_message (relayData leaf),
              r_updatedOutputAmount = leaf_updatedOutputAmount leaf,
              r_fillType = Some SlowFill \<rparr> \<rparr>
      in fillV3Relay amb fill this)"

section \<open>The update\<close>

record SpokePoolUpdate =
  success :: bool
  firstDepositId :: int
  latestDepositId :: int
  currentTime :: int
  oldestTime :: int
  events :: "Event list list"
  searchEndBlock :: int
  hasCCTPBridgingEnabled :: bool

text \<open>\<^verbatim>\<open>Array.indexOf\<close>: the first position of the element, \<open>None\<close> for \<open>-1\<close>.\<close>

fun indexOf :: "'a list \<Rightarrow> 'a \<Rightarrow> nat option" where
  "indexOf [] x = None"
| "indexOf (y # ys) x = (if y = x then Some 0 else map_option Suc (indexOf ys x))"

text \<open>
  The callback of the scan, on the buckets and the block map built so far. The index
  \<^verbatim>\<open>indexOf\<close> returns is a position of \<^verbatim>\<open>eventsToQuery\<close>, and there are as many
  buckets.
\<close>

definition scan_event :: "string list \<Rightarrow> Event \<Rightarrow> Event list list \<times> (int \<rightharpoonup> Block) \<Rightarrow> Event list list \<times> (int \<rightharpoonup> Block)" where
  "scan_event eventsToQuery ev st =
     (case indexOf eventsToQuery (event ev) of
        None \<Rightarrow> st
      | Some idx \<Rightarrow> ((fst st)[idx := fst st ! idx @ [ev]], (snd st)(blockNumber ev \<mapsto> getBlock ev)))"

text \<open>\<^verbatim>\<open>event.args?.["depositId"] ?? 0\<close>.\<close>

definition event_depositId :: "Event \<Rightarrow> int" where
  "event_depositId ev = nullish (optional_chain (args ev) args_depositId) 0"

text \<open>
  \<^verbatim>\<open>_update\<close>: the snapshot and the client as the call left it. \<^verbatim>\<open>events[idx] ?? []\<close>
  with \<^verbatim>\<open>idx = -1\<close> is the empty list.
\<close>

definition update' :: "Ambient \<Rightarrow> string list \<Rightarrow> MockSpokePoolClient \<Rightarrow> SpokePoolUpdate \<times> MockSpokePoolClient" where
  "update' amb eventsToQuery this =
     (let latestBlockSearched' = em_blockNumber (eventManager this);
          currentTime' = getCurrentTime amb;
          (events', blocks') = fold (scan_event eventsToQuery) (getEvents (eventManager this))
             (map (\<lambda>_. []) eventsToQuery, Map.empty);
          this1 = this\<lparr> blocks := blocks' \<rparr>;
          deposits = (case indexOf eventsToQuery ''V3FundsDeposited'' of
                        None \<Rightarrow> [] | Some idx \<Rightarrow> events' ! idx);
          latestDepositId' = foldl (\<lambda>depositId ev. max depositId (event_depositId ev))
             (latestDepositIdQueried this1) deposits
      in (\<lparr> success = True, firstDepositId = 0, latestDepositId = latestDepositId',
            currentTime = currentTime', oldestTime = 0, events = events',
            searchEndBlock = (case eventSearchConfig_toBlock this1 of
                                None \<Rightarrow> latestBlockSearched'
                              | Some b \<Rightarrow> if b = 0 then latestBlockSearched' else b),
            hasCCTPBridgingEnabled = False \<rparr>, this1))"

text \<open>The stored events of one type, in insertion order.\<close>

definition events_of_type :: "string \<Rightarrow> Event list \<Rightarrow> Event list" where
  "events_of_type t evs = filter (\<lambda>ev. event ev = t) evs"

text \<open>
  The highest deposit id among a high-water mark and the deposit events of a list: what
  the spec calls the running maximum over all deposit events observed.
\<close>

definition highest_depositId :: "int \<Rightarrow> Event list \<Rightarrow> int" where
  "highest_depositId mark evs =
     Max (insert mark (event_depositId ` set (events_of_type ''V3FundsDeposited'' evs)))"

section \<open>Reference inputs\<close>

text \<open>The record \<^verbatim>\<open>{}\<close> as a deposit and as a fill, and one set of draws.\<close>

definition unset_deposit :: DepositWithBlock where
  "unset_deposit = \<lparr> d_blockNumber = None, d_transactionIndex = None, d_depositId = None,
     d_originChainId = None, d_destinationChainId = None, d_depositor = None,
     d_recipient = None, d_inputToken = None, d_inputAmount = None, d_outputToken = None,
     d_outputAmount = None, d_quoteTimestamp = None, d_fillDeadline = None,
     d_exclusiveRelayer = None, d_exclusivityDeadline = None, d_message = None \<rparr>"

definition unset_fill :: FillWithBlock where
  "unset_fill = \<lparr> f_blockNumber = None, f_transactionIndex = None, f_originChainId = None,
     f_destinationChainId = None, f_depositId = None, f_inputToken = None,
     f_inputAmount = None, f_outputToken = None, f_outputAmount = None,
     f_fillDeadline = None, f_exclusivityDeadline = None, f_exclusiveRelayer = None,
     f_relayer = None, f_depositor = None, f_recipient = None, f_message = None,
     f_repaymentChainId = None, f_relayExecutionInfo = None \<rparr>"

definition sample_ambient :: Ambient where
  "sample_ambient = \<lparr> getCurrentTime = 1700000000, toBN_095 = 0, random_chainId = 10,
     random_depositId = 77, random_amount = 5000000000000000000,
     random_depositor = ''0xd'', random_inputToken = ''0x1'', random_relayer = ''0x2'',
     random_recipient = ''0x3'', random_blockNumber = 12, random_transactionIndex = 4,
     block_timestamp = 1700000000 \<rparr>"

definition fresh_client :: MockSpokePoolClient where
  "fresh_client = constructor ''0xpool'' 1 0 \<lparr> em_blockNumber = 0, em_events = [] \<rparr> 0 None"

text \<open>The fresh client after one deposit with the explicit id 5.\<close>

definition client_after_deposit :: MockSpokePoolClient where
  "client_after_deposit =
     snd (depositV3 sample_ambient (unset_deposit\<lparr> d_depositId := Some 5 \<rparr>) fresh_client)"

section \<open>Deposit ids\<close>

lemma depositV3_accepts:
  assumes "numberOfDeposits this \<le> nullish (d_depositId d) (numberOfDeposits this)"
  shows "assigned_depositId (fst (depositV3 amb d this)) = Some (nullish (d_depositId d) (numberOfDeposits this))"
    and "numberOfDeposits (snd (depositV3 amb d this)) = nullish (d_depositId d) (numberOfDeposits this) + 1"
  using assms
  by (simp_all add: depositV3_def Let_def generateEvent_def assigned_depositId_def split: prod.splits)

lemma depositV3_calls_unset:
  assumes "\<forall>c\<in>set calls. d_depositId (snd c) = None"
  shows "map assigned_depositId (fst (depositV3_calls calls this))
           = map (\<lambda>k. Some (numberOfDeposits this + int k)) [0..<length calls]
         \<and> numberOfDeposits (snd (depositV3_calls calls this)) = numberOfDeposits this + int (length calls)"
  using assms
proof (induction calls arbitrary: this)
  case Nil
  then show ?case by simp
next
  case (Cons c calls)
  obtain amb d where c: "c = (amb, d)" by (cases c)
  from Cons.prems c have d: "d_depositId d = None" by simp
  have ok: "numberOfDeposits this \<le> nullish (d_depositId d) (numberOfDeposits this)"
    by (simp add: d nullish_def)
  note step = depositV3_accepts[OF ok, of amb]
  from Cons.prems have rest: "\<forall>c\<in>set calls. d_depositId (snd c) = None" by simp
  note ih = Cons.IH[OF rest, of "snd (depositV3 amb d this)"]
  show ?case
    using step ih
    by (simp add: c d nullish_def case_prod_beta Let_def map_upt_Suc add.assoc del: upt_Suc)
qed

text \<open>
  C1. On a client just constructed, a sequence of \<open>N\<close> \<^verbatim>\<open>depositV3\<close> calls that all leave
  the deposit id unset returns events with the deposit ids \<open>0, 1, \<dots>, N - 1\<close> in call
  order (so every call succeeds), and leaves \<^verbatim>\<open>numberOfDeposits\<close> at \<open>N\<close>.
\<close>

theorem deposit_ids_count_up:
  assumes "\<forall>c\<in>set calls. d_depositId (snd c) = None"
  shows "map assigned_depositId (fst (depositV3_calls calls (constructor pool chain block em mark toBlock)))
           = map (\<lambda>k. Some (int k)) [0..<length calls]
         \<and> numberOfDeposits (snd (depositV3_calls calls (constructor pool chain block em mark toBlock)))
           = int (length calls)"
  using depositV3_calls_unset[OF assms, of "constructor pool chain block em mark toBlock"]
  by (simp add: constructor_def)

theorem deposit_ids_count_up_witness:
  "map assigned_depositId (fst (depositV3_calls
       [(sample_ambient, unset_deposit), (sample_ambient, unset_deposit), (sample_ambient, unset_deposit)]
       fresh_client)) = [Some 0, Some 1, Some 2]
   \<and> numberOfDeposits (snd (depositV3_calls
       [(sample_ambient, unset_deposit), (sample_ambient, unset_deposit), (sample_ambient, unset_deposit)]
       fresh_client)) = 3"
  using deposit_ids_count_up[of
      "[(sample_ambient, unset_deposit), (sample_ambient, unset_deposit), (sample_ambient, unset_deposit)]"
      "''0xpool''" 1 0 "\<lparr> em_blockNumber = 0, em_events = [] \<rparr>" 0 None]
  by (simp add: unset_deposit_def fresh_client_def)

text \<open>
  C4. A \<^verbatim>\<open>depositV3\<close> call with an explicit deposit id below \<^verbatim>\<open>numberOfDeposits\<close>
  throws the assertion error whose message names both numbers, and leaves the client as
  it was: no event is appended to the store and the counter keeps its value.
\<close>

theorem depositV3_stale_id_fails:
  assumes "d_depositId deposit = Some i" and "i < numberOfDeposits this"
  shows "fst (depositV3 amb deposit this)
           = Inl (AssertionError (toString i @ '' < '' @ toString (numberOfDeposits this)))
         \<and> snd (depositV3 amb deposit this) = this
         \<and> getEvents (eventManager (snd (depositV3 amb deposit this))) = getEvents (eventManager this)
         \<and> numberOfDeposits (snd (depositV3 amb deposit this)) = numberOfDeposits this"
  using assms by (simp add: depositV3_def nullish_def)

theorem depositV3_stale_id_fails_witness:
  "fst (depositV3 sample_ambient (unset_deposit\<lparr> d_depositId := Some 3 \<rparr>) client_after_deposit)
     = Inl (AssertionError ''3 < 6'')
   \<and> snd (depositV3 sample_ambient (unset_deposit\<lparr> d_depositId := Some 3 \<rparr>) client_after_deposit)
     = client_after_deposit
   \<and> length (getEvents (eventManager
       (snd (depositV3 sample_ambient (unset_deposit\<lparr> d_depositId := Some 3 \<rparr>) client_after_deposit)))) = 1
   \<and> numberOfDeposits
       (snd (depositV3 sample_ambient (unset_deposit\<lparr> d_depositId := Some 3 \<rparr>) client_after_deposit)) = 6"
proof -
  have n: "numberOfDeposits client_after_deposit = 6"
    by (simp add: client_after_deposit_def depositV3_def nullish_def fresh_client_def
        constructor_def unset_deposit_def Let_def generateEvent_def)
  have l: "length (getEvents (eventManager client_after_deposit)) = 1"
    by (simp add: client_after_deposit_def depositV3_def nullish_def fresh_client_def
        constructor_def unset_deposit_def Let_def generateEvent_def getEvents_def)
  have s: "toString 3 = ''3''" "toString 6 = ''6''"
    by code_simp+
  show ?thesis
    using depositV3_stale_id_fails[of "unset_deposit\<lparr> d_depositId := Some 3 \<rparr>" 3
        client_after_deposit sample_ambient]
    by (simp add: n l s)
qed

section \<open>Defaults of deposits and fills\<close>

lemma nullish_simps: "nullish None d = d" "nullish (Some v) d = v"
  by (simp_all add: nullish_def)

lemma depositV3_outputAmount:
  assumes "numberOfDeposits this \<le> nullish (d_depositId d) (numberOfDeposits this)"
  shows "map_option a_outputAmount (deposit_args (fst (depositV3 amb d this)))
          = Some (nullish (d_outputAmount d) (nullish (d_inputAmount d) (random_amount amb) * toBN_095 amb))"
  using assms
  by (simp add: depositV3_def Let_def generateEvent_def deposit_args_def case_prod_beta)

lemma depositV3_outputToken:
  assumes "numberOfDeposits this \<le> nullish (d_depositId d) (numberOfDeposits this)"
  shows "map_option a_outputToken (deposit_args (fst (depositV3 amb d this)))
          = Some (nullish (d_outputToken d) (nullish (d_inputToken d) (random_inputToken amb)))"
  using assms
  by (simp add: depositV3_def Let_def generateEvent_def deposit_args_def case_prod_beta)

lemma fillV3Relay_stored:
  "getEvents (eventManager (snd (fillV3Relay amb fill this)))
     = getEvents (eventManager this) @ [fst (fillV3Relay amb fill this)]"
  by (simp add: fillV3Relay_def Let_def generateEvent_def getEvents_def case_prod_beta)

text \<open>
  C5. The claim is that a deposit with the output amount unset stores the input amount
  times 0.95, so that 1000 gives 950. The source multiplies the input amount by the
  \<^verbatim>\<open>BigNumber\<close> that \<^verbatim>\<open>toBN("0.95")\<close> returns: an integer. On a fresh client the deposit
  \<^verbatim>\<open>{ inputAmount: 1000 }\<close> stores 1000 times that integer, which is 950 for no value of
  it.
\<close>

theorem depositV3_outputAmount_1000:
  "map_option a_outputAmount (deposit_args (fst
       (depositV3 amb (unset_deposit\<lparr> d_inputAmount := Some 1000 \<rparr>) fresh_client)))
     = Some (1000 * toBN_095 amb)
   \<and> map_option a_outputAmount (deposit_args (fst
       (depositV3 amb (unset_deposit\<lparr> d_inputAmount := Some 1000 \<rparr>) fresh_client)))
     \<noteq> Some 950"
proof -
  define D where "D = unset_deposit\<lparr> d_inputAmount := Some 1000 \<rparr>"
  have D: "d_depositId D = None" "d_outputAmount D = None" "d_inputAmount D = Some 1000"
    by (simp_all add: D_def unset_deposit_def)
  have never: "1000 * k \<noteq> (950::int)" for k
  proof
    assume "1000 * k = 950"
    then have "2 * (10 * k) = (19::int)" by simp
    then have "even (19::int)" by (metis dvd_triv_left)
    then show False by simp
  qed
  have ok: "numberOfDeposits fresh_client \<le> nullish (d_depositId D) (numberOfDeposits fresh_client)"
    by (simp add: D nullish_simps)
  have "map_option a_outputAmount (deposit_args (fst (depositV3 amb D fresh_client)))
          = Some (1000 * toBN_095 amb)"
    using depositV3_outputAmount[OF ok, of amb] by (simp add: D nullish_simps)
  then have eq: "map_option a_outputAmount (deposit_args (fst
       (depositV3 amb (unset_deposit\<lparr> d_inputAmount := Some 1000 \<rparr>) fresh_client)))
     = Some (1000 * toBN_095 amb)"
    unfolding D_def .
  show ?thesis
    unfolding eq using never[of "toBN_095 amb"] by simp
qed

text \<open>
  C7. The claim is that a fill with the output amount unset stores the (defaulted) input
  amount as its output amount. The source defaults the local \<^verbatim>\<open>outputAmount\<close> to the
  input amount, but writes \<^verbatim>\<open>fill.outputAmount\<close> into the payload: for the fill
  \<^verbatim>\<open>{ inputAmount: 1000 }\<close> the stored \<^verbatim>\<open>outputAmount\<close> is \<^verbatim>\<open>undefined\<close>, and the default
  reaches \<^verbatim>\<open>relayExecutionInfo.updatedOutputAmount\<close> only.
\<close>

theorem fillV3Relay_outputAmount_unset:
  "map_option fa_outputAmount (fill_args (fst
       (fillV3Relay amb (unset_fill\<lparr> f_inputAmount := Some 1000 \<rparr>) this)))
     = Some None
   \<and> map_option (updatedOutputAmount \<circ> fa_relayExecutionInfo) (fill_args (fst
       (fillV3Relay amb (unset_fill\<lparr> f_inputAmount := Some 1000 \<rparr>) this)))
     = Some 1000
   \<and> last (getEvents (eventManager (snd
       (fillV3Relay amb (unset_fill\<lparr> f_inputAmount := Some 1000 \<rparr>) this))))
     = fst (fillV3Relay amb (unset_fill\<lparr> f_inputAmount := Some 1000 \<rparr>) this)"
  by (simp add: fillV3Relay_stored)
     (simp add: fillV3Relay_def Let_def generateEvent_def fill_args_def nullish_simps
        unset_fill_def optional_chain_def)

text \<open>
  C8. The event that \<^verbatim>\<open>executeV3SlowRelayLeaf\<close> returns and stores last is a
  \<^verbatim>\<open>FilledV3Relay\<close> event whose \<^verbatim>\<open>relayExecutionInfo.fillType\<close> is \<open>SlowFill\<close> and whose
  \<^verbatim>\<open>relayer\<close> is the zero address, whatever the leaf holds.
\<close>

theorem executeV3SlowRelayLeaf_SlowFill:
  "map_option (fillType \<circ> fa_relayExecutionInfo)
       (fill_args (fst (executeV3SlowRelayLeaf amb leaf this))) = Some SlowFill
   \<and> map_option fa_relayer (fill_args (fst (executeV3SlowRelayLeaf amb leaf this)))
       = Some ZERO_ADDRESS
   \<and> event (fst (executeV3SlowRelayLeaf amb leaf this)) = ''FilledV3Relay''
   \<and> getEvents (eventManager (snd (executeV3SlowRelayLeaf amb leaf this)))
       = getEvents (eventManager this) @ [fst (executeV3SlowRelayLeaf amb leaf this)]"
  by (simp add: executeV3SlowRelayLeaf_def fillV3Relay_stored)
     (simp add: fillV3Relay_def Let_def generateEvent_def fill_args_def
        nullish_simps optional_chain_def)

text \<open>
  C10. A fill with the output token unset stores the zero address as its output token,
  whatever its input token; a deposit (one that is accepted) with the output token unset
  stores its (defaulted) input token.
\<close>

theorem fillV3Relay_outputToken_unset:
  assumes "f_outputToken fill = None"
    and "d_outputToken d = None"
    and "numberOfDeposits this \<le> nullish (d_depositId d) (numberOfDeposits this)"
  shows "map_option fa_outputToken (fill_args (fst (fillV3Relay amb fill this))) = Some ZERO_ADDRESS
   \<and> last (getEvents (eventManager (snd (fillV3Relay amb fill this)))) = fst (fillV3Relay amb fill this)
   \<and> map_option a_outputToken (deposit_args (fst (depositV3 amb d this)))
       = Some (nullish (d_inputToken d) (random_inputToken amb))"
proof -
  have "map_option fa_outputToken (fill_args (fst (fillV3Relay amb fill this))) = Some ZERO_ADDRESS"
    using assms(1)
    by (simp add: fillV3Relay_def Let_def generateEvent_def fill_args_def nullish_simps)
  then show ?thesis
    using assms(2) by (simp add: fillV3Relay_stored depositV3_outputToken[OF assms(3)] nullish_simps)
qed

theorem fillV3Relay_outputToken_unset_witness:
  "map_option fa_outputToken (fill_args (fst
       (fillV3Relay sample_ambient (unset_fill\<lparr> f_inputToken := Some ''0xaa'' \<rparr>) fresh_client)))
     = Some ''0x0000000000000000000000000000000000000000''
   \<and> map_option a_outputToken (deposit_args (fst
       (depositV3 sample_ambient (unset_deposit\<lparr> d_inputToken := Some ''0xaa'' \<rparr>) fresh_client)))
     = Some ''0xaa''"
proof -
  define F where "F = unset_fill\<lparr> f_inputToken := Some ''0xaa'' \<rparr>"
  define D where "D = unset_deposit\<lparr> d_inputToken := Some ''0xaa'' \<rparr>"
  have F: "f_outputToken F = None"
    by (simp add: F_def unset_fill_def)
  have D: "d_outputToken D = None" "d_depositId D = None" "d_inputToken D = Some ''0xaa''"
    by (simp_all add: D_def unset_deposit_def)
  have ok: "numberOfDeposits fresh_client \<le> nullish (d_depositId D) (numberOfDeposits fresh_client)"
    by (simp add: D nullish_simps)
  show ?thesis
    using fillV3Relay_outputToken_unset[OF F D(1) ok, of sample_ambient]
    unfolding F_def D_def by (simp add: D[unfolded D_def] nullish_simps ZERO_ADDRESS_def)
qed

section \<open>The buckets, the block map and the high-water mark\<close>

lemma indexOf_Some: "indexOf q x = Some i \<Longrightarrow> i < length q \<and> q ! i = x"
  by (induction q arbitrary: i) (auto split: if_splits)

lemma indexOf_None: "indexOf q x = None \<longleftrightarrow> x \<notin> set q"
  by (induction q) auto

lemma scan_buckets:
  assumes "length bs = length q"
  shows "length (fst (fold (scan_event q) es (bs, m))) = length q \<and>
         (\<forall>i<length q. fst (fold (scan_event q) es (bs, m)) ! i =
             bs ! i @ (if indexOf q (q ! i) = Some i then events_of_type (q ! i) es else []))"
  using assms
proof (induction es arbitrary: bs m)
  case Nil
  then show ?case by (simp add: events_of_type_def)
next
  case (Cons e es)
  show ?case
  proof (cases "indexOf q (event e)")
    case None
    then have notin: "event e \<notin> set q" by (simp add: indexOf_None)
    have step: "scan_event q e (bs, m) = (bs, m)" by (simp add: scan_event_def None)
    have "\<forall>i<length q. event e \<noteq> q ! i" using notin by (metis nth_mem)
    then show ?thesis using Cons.IH[OF Cons.prems, of m] by (auto simp: step events_of_type_def)
  next
    case (Some idx)
    then have idx: "idx < length q" "q ! idx = event e" using indexOf_Some by fastforce+
    define bs' where "bs' = bs[idx := bs ! idx @ [e]]"
    define m' where "m' = m(blockNumber e \<mapsto> getBlock e)"
    have step: "scan_event q e (bs, m) = (bs', m')"
      by (simp add: scan_event_def Some bs'_def m'_def)
    have len: "length bs' = length q" using Cons.prems by (simp add: bs'_def)
    note ih = Cons.IH[OF len, of m']
    have "fst (fold (scan_event q) es (bs', m')) ! i =
            bs ! i @ (if indexOf q (q ! i) = Some i then events_of_type (q ! i) (e # es) else [])"
      if i: "i < length q" for i
    proof (cases "i = idx")
      case True
      have "bs' ! idx = bs ! idx @ [e]" using idx Cons.prems by (simp add: bs'_def)
      then show ?thesis using ih i idx Some True by (simp add: events_of_type_def)
    next
      case False
      have ne: "indexOf q (q ! i) = Some i \<Longrightarrow> q ! i \<noteq> event e"
        using False Some by auto
      have "bs' ! i = bs ! i" using False by (simp add: bs'_def)
      then show ?thesis using ih i ne by (auto simp: events_of_type_def)
    qed
    then show ?thesis using ih by (simp add: step)
  qed
qed

lemma scan_blocks_dom:
  "dom (snd (fold (scan_event q) es (bs, m))) = dom m \<union> blockNumber ` {e \<in> set es. event e \<in> set q}"
proof (induction es arbitrary: bs m)
  case Nil
  then show ?case by simp
next
  case (Cons e es)
  show ?case
  proof (cases "indexOf q (event e)")
    case None
    then have notin: "event e \<notin> set q" by (simp add: indexOf_None)
    have step: "scan_event q e (bs, m) = (bs, m)" by (simp add: scan_event_def None)
    have "{x \<in> set (e # es). event x \<in> set q} = {x \<in> set es. event x \<in> set q}"
      using notin by auto
    then show ?thesis by (simp add: step Cons.IH)
  next
    case (Some idx)
    then have isin: "event e \<in> set q" using indexOf_None[of q "event e"] by auto
    define bs' where "bs' = bs[idx := bs ! idx @ [e]]"
    define m' where "m' = m(blockNumber e \<mapsto> getBlock e)"
    have step: "scan_event q e (bs, m) = (bs', m')"
      by (simp add: scan_event_def Some bs'_def m'_def)
    have dm: "dom m' = insert (blockNumber e) (dom m)" by (simp add: m'_def)
    have "{x \<in> set (e # es). event x \<in> set q} = insert e {x \<in> set es. event x \<in> set q}"
      using isin by auto
    then show ?thesis by (simp add: step Cons.IH dm)
  qed
qed

lemma foldl_max_ge: "a \<le> foldl (\<lambda>d ev. max d (f ev)) (a::int) xs"
proof (induction xs arbitrary: a)
  case Nil
  then show ?case by simp
next
  case (Cons x xs)
  have "a \<le> max a (f x)" by simp
  also have "\<dots> \<le> foldl (\<lambda>d ev. max d (f ev)) (max a (f x)) xs" by (rule Cons.IH)
  finally show ?case by simp
qed

lemma foldl_max_Max: "foldl (\<lambda>d ev. max d (f ev)) (a::int) xs = Max (insert a (f ` set xs))"
proof (induction xs arbitrary: a)
  case Nil
  then show ?case by simp
next
  case (Cons x xs)
  have "Max (insert (max a (f x)) (f ` set xs)) = Max (insert a (insert (f x) (f ` set xs)))"
  proof (cases "set xs = {}")
    case True
    then show ?thesis by simp
  next
    case False
    then show ?thesis by (simp add: max.assoc)
  qed
  then show ?case using Cons.IH[of "max a (f x)"] by simp
qed

lemma update_events:
  "events (fst (update' amb q this)) = fst (fold (scan_event q) (getEvents (eventManager this)) (map (\<lambda>_. []) q, Map.empty))"
  by (simp add: update'_def Let_def case_prod_beta)

lemma update_client:
  "snd (update' amb q this) = this\<lparr> blocks := snd (fold (scan_event q) (getEvents (eventManager this)) (map (\<lambda>_. []) q, Map.empty)) \<rparr>"
  by (simp add: update'_def Let_def case_prod_beta)

lemma update_latest:
  "latestDepositId (fst (update' amb q this)) =
     foldl (\<lambda>depositId ev. max depositId (event_depositId ev)) (latestDepositIdQueried this)
       (case indexOf q ''V3FundsDeposited'' of None \<Rightarrow> []
        | Some idx \<Rightarrow> events (fst (update' amb q this)) ! idx)"
  by (simp add: update'_def Let_def case_prod_beta split: option.splits)

lemma update_bucket:
  assumes "i < length q"
  shows "events (fst (update' amb q this)) ! i =
      (if indexOf q (q ! i) = Some i
       then events_of_type (q ! i) (getEvents (eventManager this)) else [])"
  using scan_buckets[of "map (\<lambda>_. []) q" q "getEvents (eventManager this)" Map.empty] assms
  by (simp add: update_events)

lemma events_of_type_empty: "t \<notin> event ` set evs \<Longrightarrow> events_of_type t evs = []"
  by (auto simp: events_of_type_def filter_empty_conv)

lemma events_of_type_all: "\<forall>x\<in>set evs. event x = t \<Longrightarrow> events_of_type t evs = evs"
  by (simp add: events_of_type_def filter_id_conv)

lemma client_after_deposit_events:
  "map event (getEvents (eventManager client_after_deposit)) = [''V3FundsDeposited'']"
  "map event_depositId (getEvents (eventManager client_after_deposit)) = [5]"
  "latestDepositIdQueried client_after_deposit = 0"
  by (simp_all add: client_after_deposit_def depositV3_def nullish_simps fresh_client_def
      constructor_def unset_deposit_def Let_def generateEvent_def getEvents_def
      event_depositId_def optional_chain_def)

text \<open>
  C2, as amended. The snapshot has one bucket for each position of the requested list.
  The bucket at a position that is the first occurrence of its type in the list holds
  exactly the stored events of that type, in insertion order; the bucket at a later
  occurrence of a type is empty. A position whose type no stored event has gets the empty
  list.
\<close>

theorem update_buckets:
  "length (events (fst (update' amb q this))) = length q \<and>
   (\<forall>i<length q. events (fst (update' amb q this)) ! i =
      (if indexOf q (q ! i) = Some i
       then events_of_type (q ! i) (getEvents (eventManager this)) else [])) \<and>
   (\<forall>i<length q. q ! i \<notin> event ` set (getEvents (eventManager this)) \<longrightarrow>
      events (fst (update' amb q this)) ! i = [])"
proof (intro conjI allI impI)
  show "length (events (fst (update' amb q this))) = length q"
    using scan_buckets[of "map (\<lambda>_. []) q" q "getEvents (eventManager this)" Map.empty]
    by (simp add: update_events)
next
  fix i assume "i < length q"
  then show "events (fst (update' amb q this)) ! i =
      (if indexOf q (q ! i) = Some i
       then events_of_type (q ! i) (getEvents (eventManager this)) else [])"
    by (rule update_bucket)
next
  fix i assume "i < length q" and "q ! i \<notin> event ` set (getEvents (eventManager this))"
  then show "events (fst (update' amb q this)) ! i = []"
    by (simp add: update_bucket events_of_type_empty)
qed

theorem update_buckets_witness:
  "length (events (fst (update' sample_ambient [''V3FundsDeposited'', ''FilledV3Relay''] client_after_deposit))) = 2
   \<and> events (fst (update' sample_ambient [''V3FundsDeposited'', ''FilledV3Relay''] client_after_deposit)) ! 0
       = getEvents (eventManager client_after_deposit)
   \<and> events (fst (update' sample_ambient [''V3FundsDeposited'', ''FilledV3Relay''] client_after_deposit)) ! 1
       = []"
proof -
  let ?q = "[''V3FundsDeposited'', ''FilledV3Relay'']"
  let ?bs = "events (fst (update' sample_ambient ?q client_after_deposit))"
  let ?stored = "getEvents (eventManager client_after_deposit)"
  note t = update_buckets[of sample_ambient ?q client_after_deposit]
  have "set (map event ?stored) = {''V3FundsDeposited''}"
    unfolding client_after_deposit_events(1) by simp
  then have types: "event ` set ?stored = {''V3FundsDeposited''}"
    by simp
  then have "\<forall>x\<in>set ?stored. event x = ''V3FundsDeposited''"
    by blast
  then have all: "events_of_type ''V3FundsDeposited'' ?stored = ?stored"
    by (rule events_of_type_all)
  have len: "length ?bs = 2"
    using t[THEN conjunct1] by simp
  have b0: "?bs ! 0 = ?stored"
    using t[THEN conjunct2, THEN conjunct1, rule_format, of 0] all by simp
  have b1: "?bs ! 1 = []"
    using t[THEN conjunct2, THEN conjunct2, rule_format, of 1] types by simp
  show ?thesis using len b0 b1 by simp
qed

text \<open>
  C2, as stated, fails when the requested list names a type twice: the stored deposit
  event is put in the first bucket and the second bucket stays empty.
\<close>

theorem update_duplicate_type_counterexample:
  "events (fst (update' sample_ambient [''V3FundsDeposited'', ''V3FundsDeposited''] client_after_deposit)) ! 1
     \<noteq> events_of_type ''V3FundsDeposited'' (getEvents (eventManager client_after_deposit))"
  by (simp add: update'_def Let_def scan_event_def getEvents_def events_of_type_def
      client_after_deposit_def depositV3_def nullish_def fresh_client_def
      constructor_def unset_deposit_def generateEvent_def)

text \<open>
  C3, as amended. When the deposit event type is among the requested types, the
  snapshot's \<^verbatim>\<open>latestDepositId\<close> is the maximum of \<^verbatim>\<open>latestDepositIdQueried\<close> and the
  deposit ids of all stored deposit events; when it is not requested, it is
  \<^verbatim>\<open>latestDepositIdQueried\<close> itself. Either way it is at least \<^verbatim>\<open>latestDepositIdQueried\<close>,
  so a later snapshot of a client that has recorded this one as its high-water mark is
  never lower, whatever events that client's store holds by then.
\<close>

theorem update_latestDepositId:
  "latestDepositId (fst (update' amb q this)) =
     (if ''V3FundsDeposited'' \<in> set q
      then highest_depositId (latestDepositIdQueried this) (getEvents (eventManager this))
      else latestDepositIdQueried this)
   \<and> latestDepositIdQueried this \<le> latestDepositId (fst (update' amb q this))
   \<and> latestDepositId (fst (update' amb q this))
       \<le> latestDepositId (fst (update' amb' q'
            (this'\<lparr> latestDepositIdQueried := latestDepositId (fst (update' amb q this)) \<rparr>)))"
proof -
  have ge: "latestDepositIdQueried c \<le> latestDepositId (fst (update' a r c))" for a r c
    unfolding update_latest by (rule foldl_max_ge)
  have eq: "latestDepositId (fst (update' amb q this)) =
     (if ''V3FundsDeposited'' \<in> set q
      then highest_depositId (latestDepositIdQueried this) (getEvents (eventManager this))
      else latestDepositIdQueried this)"
  proof (cases "indexOf q ''V3FundsDeposited''")
    case None
    then show ?thesis using indexOf_None[of q "''V3FundsDeposited''"] by (simp add: update_latest)
  next
    case (Some idx)
    then have idx: "idx < length q" "q ! idx = ''V3FundsDeposited''" using indexOf_Some by fastforce+
    then have mem: "''V3FundsDeposited'' \<in> set q" by (metis nth_mem)
    have "events (fst (update' amb q this)) ! idx
            = events_of_type ''V3FundsDeposited'' (getEvents (eventManager this))"
      using update_bucket[of idx q amb this] idx Some by simp
    then show ?thesis
      by (simp add: update_latest Some mem highest_depositId_def foldl_max_Max)
  qed
  show ?thesis
    using eq ge[of this amb q]
      ge[of "this'\<lparr> latestDepositIdQueried := latestDepositId (fst (update' amb q this)) \<rparr>" amb' q']
    by simp
qed

lemma client_after_deposit_highest:
  "highest_depositId 0 (getEvents (eventManager client_after_deposit)) = 5"
proof -
  let ?stored = "getEvents (eventManager client_after_deposit)"
  have "set (map event ?stored) = {''V3FundsDeposited''}"
    unfolding client_after_deposit_events(1) by simp
  then have "event ` set ?stored = {''V3FundsDeposited''}"
    by simp
  then have "\<forall>x\<in>set ?stored. event x = ''V3FundsDeposited''"
    by blast
  then have all: "events_of_type ''V3FundsDeposited'' ?stored = ?stored"
    by (rule events_of_type_all)
  have "set (map event_depositId ?stored) = {5}"
    unfolding client_after_deposit_events(2) by simp
  then have "event_depositId ` set ?stored = {5}"
    by simp
  then show ?thesis by (simp add: highest_depositId_def all)
qed

theorem update_latestDepositId_witness:
  "latestDepositId (fst (update' sample_ambient [''V3FundsDeposited''] client_after_deposit)) = 5
   \<and> 5 \<le> latestDepositId (fst (update' sample_ambient [''FilledV3Relay'']
        (client_after_deposit\<lparr> latestDepositIdQueried := 5 \<rparr>)))"
proof -
  let ?first = "latestDepositId (fst (update' sample_ambient [''V3FundsDeposited''] client_after_deposit))"
  note t = update_latestDepositId[of sample_ambient "[''V3FundsDeposited'']" client_after_deposit
      sample_ambient "[''FilledV3Relay'']" client_after_deposit]
  from t have a: "?first = 5"
    by (simp add: client_after_deposit_events(3) client_after_deposit_highest)
  from t have "?first \<le> latestDepositId (fst (update' sample_ambient [''FilledV3Relay'']
        (client_after_deposit\<lparr> latestDepositIdQueried := ?first \<rparr>)))"
    by blast
  then have b: "5 \<le> latestDepositId (fst (update' sample_ambient [''FilledV3Relay'']
        (client_after_deposit\<lparr> latestDepositIdQueried := 5 \<rparr>)))"
    unfolding a .
  show ?thesis using a b by simp
qed

text \<open>
  C3, as stated, fails when the deposit event type is not requested: the store holds a
  deposit with id 5 and the high-water mark is 0, yet the snapshot's \<^verbatim>\<open>latestDepositId\<close>
  is 0.
\<close>

theorem update_unrequested_deposit_counterexample:
  "latestDepositId (fst (update' sample_ambient [''FilledV3Relay''] client_after_deposit)) = 0
   \<and> highest_depositId (latestDepositIdQueried client_after_deposit)
        (getEvents (eventManager client_after_deposit)) = 5
   \<and> latestDepositId (fst (update' sample_ambient [''FilledV3Relay''] client_after_deposit))
       \<noteq> highest_depositId (latestDepositIdQueried client_after_deposit)
            (getEvents (eventManager client_after_deposit))"
proof -
  have "latestDepositId (fst (update' sample_ambient [''FilledV3Relay''] client_after_deposit)) = 0"
    by (simp add: update_latest client_after_deposit_events(3))
  then show ?thesis
    by (simp add: client_after_deposit_events(3) client_after_deposit_highest)
qed

lemma find_snoc:
  "List.find P (xs @ [x]) = (case List.find P xs of None \<Rightarrow> (if P x then Some x else None) | Some y \<Rightarrow> Some y)"
  by (induction xs) auto

lemma scan_blocks_value:
  "snd (fold (scan_event q) es (bs, m)) bn =
     (case List.find (\<lambda>ev. event ev \<in> set q \<and> blockNumber ev = bn) (rev es) of
        None \<Rightarrow> m bn | Some ev \<Rightarrow> Some (getBlock ev))"
proof (induction es arbitrary: bs m)
  case Nil
  then show ?case by simp
next
  case (Cons e es)
  show ?case
  proof (cases "indexOf q (event e)")
    case None
    then have notin: "event e \<notin> set q" by (simp add: indexOf_None)
    have step: "scan_event q e (bs, m) = (bs, m)" by (simp add: scan_event_def None)
    show ?thesis using notin by (simp add: step Cons.IH find_snoc split: option.splits)
  next
    case (Some idx)
    then have isin: "event e \<in> set q" using indexOf_None[of q "event e"] by auto
    define bs' where "bs' = bs[idx := bs ! idx @ [e]]"
    define m' where "m' = m(blockNumber e \<mapsto> getBlock e)"
    have step: "scan_event q e (bs, m) = (bs', m')"
      by (simp add: scan_event_def Some bs'_def m'_def)
    have m': "m' bn = (if blockNumber e = bn then Some (getBlock e) else m bn)"
      by (simp add: m'_def)
    show ?thesis using isin by (simp add: step Cons.IH find_snoc m' split: option.splits)
  qed
qed

lemma client_after_deposit_block:
  "map (\<lambda>ev. (event ev, blockNumber ev, getBlock ev)) (getEvents (eventManager client_after_deposit))
     = [(''V3FundsDeposited'', 12, \<lparr> number = 12, timestamp = 1700000000 \<rparr>)]"
  "numberOfDeposits client_after_deposit = 6"
  by (simp_all add: client_after_deposit_def depositV3_def nullish_simps fresh_client_def
      constructor_def unset_deposit_def Let_def generateEvent_def getEvents_def sample_ambient_def)

text \<open>
  C9. \<^verbatim>\<open>_update\<close> returns the client with only \<^verbatim>\<open>blocks\<close> replaced: the counter, the
  deposit-id-at-block table, the fee override and the destination token overrides keep
  their values. The new block map has an entry exactly for the block numbers of the stored
  events whose type is among the requested types, and the entry of a block number is the
  metadata \<^verbatim>\<open>getBlock()\<close> gives for the last stored event of a requested type in that
  block.
\<close>

theorem update_frame:
  "snd (update' amb q this) = this\<lparr> blocks := blocks (snd (update' amb q this)) \<rparr>
   \<and> numberOfDeposits (snd (update' amb q this)) = numberOfDeposits this
   \<and> depositIdAtBlock (snd (update' amb q this)) = depositIdAtBlock this
   \<and> realizedLpFeePct (snd (update' amb q this)) = realizedLpFeePct this
   \<and> realizedLpFeePctOverride (snd (update' amb q this)) = realizedLpFeePctOverride this
   \<and> destinationTokenForChainOverride (snd (update' amb q this)) = destinationTokenForChainOverride this
   \<and> dom (blocks (snd (update' amb q this)))
       = blockNumber ` {ev \<in> set (getEvents (eventManager this)). event ev \<in> set q}
   \<and> blocks (snd (update' amb q this)) bn
       = map_option getBlock
           (List.find (\<lambda>ev. event ev \<in> set q \<and> blockNumber ev = bn)
              (rev (getEvents (eventManager this))))"
  by (simp add: update_client scan_blocks_dom scan_blocks_value split: option.splits)

theorem update_frame_witness:
  "blocks (snd (update' sample_ambient [''V3FundsDeposited''] client_after_deposit)) 12
     = Some \<lparr> number = 12, timestamp = 1700000000 \<rparr>
   \<and> blocks (snd (update' sample_ambient [''FilledV3Relay''] client_after_deposit)) 12 = None
   \<and> dom (blocks (snd (update' sample_ambient [''V3FundsDeposited''] client_after_deposit))) = {12}
   \<and> numberOfDeposits (snd (update' sample_ambient [''V3FundsDeposited''] client_after_deposit)) = 6"
proof -
  let ?stored = "getEvents (eventManager client_after_deposit)"
  obtain e where e: "?stored = [e]" "event e = ''V3FundsDeposited''" "blockNumber e = 12"
      "getBlock e = \<lparr> number = 12, timestamp = 1700000000 \<rparr>"
    using client_after_deposit_block(1) by (auto simp: map_eq_Cons_conv)
  note t = update_frame[of sample_ambient "[''V3FundsDeposited'']" client_after_deposit 12]
  note u = update_frame[of sample_ambient "[''FilledV3Relay'']" client_after_deposit 12]
  have a: "blocks (snd (update' sample_ambient [''V3FundsDeposited''] client_after_deposit)) 12
     = Some \<lparr> number = 12, timestamp = 1700000000 \<rparr>"
    using t e by simp
  have b: "blocks (snd (update' sample_ambient [''FilledV3Relay''] client_after_deposit)) 12 = None"
    using u e by simp
  have "{ev \<in> set ?stored. event ev \<in> set [''V3FundsDeposited'']} = {e}"
    unfolding e(1) using e(2) by auto
  then have c: "dom (blocks (snd (update' sample_ambient [''V3FundsDeposited''] client_after_deposit))) = {12}"
    using t[THEN conjunct2, THEN conjunct2, THEN conjunct2, THEN conjunct2, THEN conjunct2,
        THEN conjunct2, THEN conjunct1] e(3) by simp
  have d: "numberOfDeposits (snd (update' sample_ambient [''V3FundsDeposited''] client_after_deposit)) = 6"
    using t client_after_deposit_block(2) by simp
  show ?thesis using a b c d by simp
qed

section \<open>The deposit-id-at-block table\<close>












end
